theory Spec2Isabelle
  imports Main "HOL-Library.Word"
begin

text \<open>
  Package \<open>safefile\<close> saves a file by writing a temporary file in the directory of the
  destination and renaming it over the destination. This theory embeds the package as its
  source has it in the revision with \<open>Commit\<close>: \<open>makeTempName\<close>, \<open>Create\<close>,
  \<open>Close\<close> with its four close functions, \<open>Commit\<close> and \<open>WriteFile\<close>, and the test
  \<open>TestDoubleCommit\<close>. The earlier revision, in which \<open>Close\<close> commits, has the same
  \<open>makeTempName\<close> and \<open>Create\<close>; its \<open>CloseEx\<close>, \<open>Close\<close> and \<open>WriteFile\<close> follow.
  The functions of the Go standard library the package calls are modelled first: paths,
  formatting, the clock and the file system.
\<close>

section \<open>Errors\<close>

text \<open>
  The underlying cause carried by an error of package \<open>os\<close> (a \<open>*PathError\<close> or
  \<open>*LinkError\<close>). \<open>ErrClosed\<close> is what a method of an \<open>*os.File\<close> reports once
  the file has been closed.
\<close>

datatype cause = EEXIST | ENOENT | EACCES | ENOSPC | EXDEV | EIO | ErrClosed

text \<open>
  The error values the package handles: \<open>os.ErrInvalid\<close>, \<open>io.ErrShortWrite\<close>, and
  the errors returned by the calls into package \<open>os\<close>.

  Modelled from the spec: \<open>ErrAlreadyCommitted\<close>, the spec's \<open>AlreadyFinalized\<close>, "a
  second Commit or a Commit-after-Abandon call". \<open>TestDoubleCommit\<close> compares the result
  of the second \<open>Commit\<close> with it; the package source declares no such value.
\<close>

datatype error = ErrInvalid | ErrShortWrite | ErrAlreadyCommitted | PathError cause

text \<open>\<open>os.IsExist\<close>: the error reports that a file already exists.\<close>

fun IsExist :: "error \<Rightarrow> bool" where
  "IsExist (PathError EEXIST) = True"
| "IsExist _ = False"

section \<open>Paths (package \<open>path/filepath\<close>, Unix)\<close>

definition Separator :: char where
  "Separator = CHR ''/''"

text \<open>The elements of a path between separators, empty ones included.\<close>

fun elems :: "string \<Rightarrow> string \<Rightarrow> string list" where
  "elems cur [] = [cur]"
| "elems cur (c # cs) =
     (if c = Separator then cur # elems [] cs else elems (cur @ [c]) cs)"

text \<open>
  The element loop of \<open>Clean\<close>: empty and \<open>.\<close> elements are skipped, \<open>..\<close> removes the
  last real element when there is one, is dropped at the root, and is kept at the front of
  a relative path. \<open>out\<close> is the output so far, last element first.
\<close>

fun clean_elems :: "bool \<Rightarrow> string list \<Rightarrow> string list \<Rightarrow> string list" where
  "clean_elems rooted out [] = rev out"
| "clean_elems rooted out (e # es) =
     (if e = [] \<or> e = ''.'' then clean_elems rooted out es
      else if e = ''..'' then
        (if out \<noteq> [] \<and> hd out \<noteq> ''..'' then clean_elems rooted (tl out) es
         else if \<not> rooted then clean_elems rooted (''..'' # out) es
         else clean_elems rooted out es)
      else clean_elems rooted (e # out) es)"

fun join_elems :: "string list \<Rightarrow> string" where
  "join_elems [] = []"
| "join_elems [e] = e"
| "join_elems (e # es) = e @ Separator # join_elems es"

definition Clean :: "string \<Rightarrow> string" where
  "Clean path =
     (if path = [] then ''.''
      else
        let rooted = (hd path = Separator);
            out = join_elems (clean_elems rooted [] (elems [] path));
            s = (if rooted then Separator # out else out)
        in if s = [] then ''.'' else s)"

text \<open>\<open>Dir\<close>: all but the last element of the path, cleaned.\<close>

definition Dir :: "string \<Rightarrow> string" where
  "Dir path = Clean (rev (dropWhile (\<lambda>c. c \<noteq> Separator) (rev path)))"

text \<open>\<open>Join\<close>: the elements from the first non-empty one on, separated and cleaned.\<close>

definition Join :: "string list \<Rightarrow> string" where
  "Join es =
     (case dropWhile (\<lambda>e. e = []) es of
        [] \<Rightarrow> []
      | e # es' \<Rightarrow> Clean (join_elems (e # es')))"

section \<open>Formatting (package \<open>fmt\<close>)\<close>

definition digit_char :: "nat \<Rightarrow> char" where
  "digit_char d = ''0123456789abcdef'' ! d"

fun dec :: "nat \<Rightarrow> string" where
  "dec n = (if n < 10 then [digit_char n] else dec (n div 10) @ [digit_char (n mod 10)])"

fun hex :: "nat \<Rightarrow> string" where
  "hex n = (if n < 16 then [digit_char n] else hex (n div 16) @ [digit_char (n mod 16)])"

declare dec.simps [simp del] hex.simps [simp del]

text \<open>The verbs \<open>%x\<close> and \<open>%d\<close> on a signed integer: a minus sign, then the magnitude.\<close>

definition fmt_x :: "int \<Rightarrow> string" where
  "fmt_x i = (if i < 0 then CHR ''-'' # hex (nat (- i)) else hex (nat i))"

definition fmt_d :: "int \<Rightarrow> string" where
  "fmt_d i = (if i < 0 then CHR ''-'' # dec (nat (- i)) else dec (nat i))"

text \<open>\<open>fmt.Sprintf("%x-%d.tmp", nanos, counter)\<close> with an \<open>int64\<close> and an \<open>int\<close>.\<close>

definition Sprintf_tmp :: "64 word \<Rightarrow> 64 word \<Rightarrow> string" where
  "Sprintf_tmp nanos counter = fmt_x (sint nanos) @ ''-'' @ fmt_d (sint counter) @ ''.tmp''"

section \<open>The file system and the clock\<close>

text \<open>
  The package calls into \<open>os\<close> and \<open>time\<close>. The world holds what these calls read and
  change: the regular files by path, the table of open \<open>*os.File\<close> values (path and
  offset; a closed one has no entry and its number is never given out again), and the
  calls issued so far, each with the cause of its failure or \<open>None\<close>. The environment is
  part of the world: \<open>clock\<close> gives the successive readings of
  \<open>time.Now().UnixNano()\<close>, \<open>faults\<close> may make the k-th call fail with a cause of its
  choice, and \<open>shorts\<close> says how many bytes the k-th call, when it is a write that fails,
  has written before it fails.
\<close>

datatype flag = O_RDWR | O_CREATE | O_EXCL

datatype call =
    OpenFile_call string "flag set" "32 word"
  | Write_call nat string
  | Sync_call nat
  | Close_call nat
  | Rename_call string string
  | Remove_call string

record world =
  files :: "string \<rightharpoonup> string"
  fds :: "nat \<rightharpoonup> string \<times> nat"
  next_fd :: nat
  trace :: "(call \<times> cause option) list"
  ticks :: nat
  clock :: "nat \<Rightarrow> 64 word"
  faults :: "nat \<Rightarrow> cause option"
  shorts :: "nat \<Rightarrow> nat option"

definition fault_now :: "world \<Rightarrow> cause option" where
  "fault_now w = faults w (length (trace w))"

definition short_now :: "world \<Rightarrow> nat option" where
  "short_now w = shorts w (length (trace w))"

definition log_call :: "call \<Rightarrow> cause option \<Rightarrow> world \<Rightarrow> world" where
  "log_call c r w = w\<lparr>trace := trace w @ [(c, r)]\<rparr>"

text \<open>\<open>time.Now().UnixNano()\<close>: the next reading of the clock.\<close>

definition UnixNano :: "world \<Rightarrow> 64 word \<times> world" where
  "UnixNano w = (clock w (ticks w), w\<lparr>ticks := ticks w + 1\<rparr>)"

text \<open>
  \<open>os.OpenFile\<close>. With \<open>O_CREATE\<close> and \<open>O_EXCL\<close> an existing file is an error; with
  \<open>O_CREATE\<close> alone an existing file is opened as it is, and a missing one is created
  empty. A failed call creates nothing.
\<close>

definition os_OpenFile :: "string \<Rightarrow> flag set \<Rightarrow> 32 word \<Rightarrow> world \<Rightarrow> (error + nat) \<times> world" where
  "os_OpenFile name flags perm w =
     (let c = OpenFile_call name flags perm in
      case fault_now w of
        Some e \<Rightarrow> (Inl (PathError e), log_call c (Some e) w)
      | None \<Rightarrow>
          (case files w name of
             Some content \<Rightarrow>
               if O_CREATE \<in> flags \<and> O_EXCL \<in> flags
               then (Inl (PathError EEXIST), log_call c (Some EEXIST) w)
               else (Inr (next_fd w),
                     log_call c None
                       (w\<lparr>fds := (fds w)(next_fd w \<mapsto> (name, 0)), next_fd := next_fd w + 1\<rparr>))
           | None \<Rightarrow>
               if O_CREATE \<in> flags
               then (Inr (next_fd w),
                     log_call c None
                       (w\<lparr>files := (files w)(name \<mapsto> []),
                          fds := (fds w)(next_fd w \<mapsto> (name, 0)),
                          next_fd := next_fd w + 1\<rparr>))
               else (Inl (PathError ENOENT), log_call c (Some ENOENT) w)))"

text \<open>
  \<open>(*os.File).Write\<close>: the bytes go to the file at the current offset. The result is
  the number of bytes written and the error. The method completes a short write by itself:
  it reports no error only when it has written the whole buffer, and a write that fails
  may have written a part of it.
\<close>

definition os_Write :: "nat \<Rightarrow> string \<Rightarrow> world \<Rightarrow> (nat \<times> error option) \<times> world" where
  "os_Write fd b w =
     (let c = Write_call fd b in
      case fds w fd of
        None \<Rightarrow> ((0, Some (PathError ErrClosed)), log_call c (Some ErrClosed) w)
      | Some (path, off) \<Rightarrow>
          (let n = (case fault_now w of
                      None \<Rightarrow> length b
                    | Some e \<Rightarrow> (case short_now w of None \<Rightarrow> 0 | Some k \<Rightarrow> min k (length b)));
               fs = (case files w path of
                       None \<Rightarrow> files w
                     | Some old \<Rightarrow> (files w)(path \<mapsto> take off old @ take n b @ drop (off + n) old))
           in ((n, map_option PathError (fault_now w)),
               log_call c (fault_now w)
                 (w\<lparr>files := fs, fds := (fds w)(fd \<mapsto> (path, off + n))\<rparr>))))"


text \<open>\<open>(*os.File).Sync\<close>.\<close>

definition os_Sync :: "nat \<Rightarrow> world \<Rightarrow> error option \<times> world" where
  "os_Sync fd w =
     (let c = Sync_call fd in
      case fds w fd of
        None \<Rightarrow> (Some (PathError ErrClosed), log_call c (Some ErrClosed) w)
      | Some _ \<Rightarrow>
          (case fault_now w of
             Some e \<Rightarrow> (Some (PathError e), log_call c (Some e) w)
           | None \<Rightarrow> (None, log_call c None w)))"

text \<open>
  \<open>(*os.File).Close\<close>: the file is closed afterwards also when the call reports an
  error; closing a closed file is an error.
\<close>

definition os_Close :: "nat \<Rightarrow> world \<Rightarrow> error option \<times> world" where
  "os_Close fd w =
     (let c = Close_call fd in
      case fds w fd of
        None \<Rightarrow> (Some (PathError ErrClosed), log_call c (Some ErrClosed) w)
      | Some _ \<Rightarrow>
          (case fault_now w of
             Some e \<Rightarrow> (Some (PathError e), log_call c (Some e) (w\<lparr>fds := (fds w)(fd := None)\<rparr>))
           | None \<Rightarrow> (None, log_call c None (w\<lparr>fds := (fds w)(fd := None)\<rparr>))))"

text \<open>\<open>os.Rename\<close>: the file moves to the new path and replaces what was there.\<close>

definition os_Rename :: "string \<Rightarrow> string \<Rightarrow> world \<Rightarrow> error option \<times> world" where
  "os_Rename oldpath newpath w =
     (let c = Rename_call oldpath newpath in
      case fault_now w of
        Some e \<Rightarrow> (Some (PathError e), log_call c (Some e) w)
      | None \<Rightarrow>
          (case files w oldpath of
             None \<Rightarrow> (Some (PathError ENOENT), log_call c (Some ENOENT) w)
           | Some content \<Rightarrow>
               (None, log_call c None
                        (w\<lparr>files := ((files w)(oldpath := None))(newpath \<mapsto> content)\<rparr>))))"

text \<open>\<open>os.Remove\<close>.\<close>

definition os_Remove :: "string \<Rightarrow> world \<Rightarrow> error option \<times> world" where
  "os_Remove name w =
     (let c = Remove_call name in
      case fault_now w of
        Some e \<Rightarrow> (Some (PathError e), log_call c (Some e) w)
      | None \<Rightarrow>
          (case files w name of
             None \<Rightarrow> (Some (PathError ENOENT), log_call c (Some ENOENT) w)
           | Some _ \<Rightarrow> (None, log_call c None (w\<lparr>files := (files w)(name := None)\<rparr>))))"

section \<open>Package safefile\<close>

text \<open>
  The value of the field \<open>closeFunc\<close>: which of the four close functions the handle
  holds.
\<close>

datatype closer = Uncommitted | AfterFailedRename | Committed | AgainError

text \<open>
  \<open>type File struct\<close>. The embedded \<open>*os.File\<close> is its entry \<open>fd\<close> in the table of
  open files and its name, which never changes.
\<close>

record File =
  fd :: nat
  Name :: string
  origName :: string
  closeFunc :: closer

definition makeTempName :: "string \<Rightarrow> 64 word \<Rightarrow> world \<Rightarrow> (error + string) \<times> world" where
  "makeTempName origname counter w =
     (let origname' = Clean origname in
      if length origname' = 0 \<or> last origname' = Separator then (Inl ErrInvalid, w)
      else
        (case UnixNano w of
           (nanos, w') \<Rightarrow> (Inr (Join [Dir origname', Sprintf_tmp nanos counter]), w')))"

text \<open>
  The loop of \<open>Create\<close>, from the counter it has reached. The loop has no bound, so the
  result is \<open>None\<close> when it never returns.
\<close>

partial_function (option) Create_loop ::
  "string \<Rightarrow> 32 word \<Rightarrow> 64 word \<Rightarrow> world \<Rightarrow> ((error + File) \<times> world) option" where
  "Create_loop filename perm counter w =
     (case makeTempName filename counter w of
        (Inl err, w1) \<Rightarrow> Some (Inl err, w1)
      | (Inr tempname, w1) \<Rightarrow>
          (case os_OpenFile tempname {O_RDWR, O_CREATE} perm w1 of
             (Inl err, w2) \<Rightarrow>
               if IsExist err then Create_loop filename perm (counter + 1) w2
               else Some (Inl err, w2)
           | (Inr f, w2) \<Rightarrow>
               Some (Inr \<lparr>fd = f, Name = tempname, origName = filename,
                          closeFunc = Uncommitted\<rparr>, w2)))"

definition Create :: "string \<Rightarrow> 32 word \<Rightarrow> world \<Rightarrow> ((error + File) \<times> world) option" where
  "Create filename perm w = Create_loop filename perm 0 w"

definition OrigName :: "File \<Rightarrow> string" where
  "OrigName f = origName f"

definition closeUncommitted :: "File \<Rightarrow> world \<Rightarrow> error option \<times> File \<times> world" where
  "closeUncommitted f w =
     (case os_Close (fd f) w of
        (err0, w1) \<Rightarrow>
          (case os_Remove (Name f) w1 of
             (err1, w2) \<Rightarrow>
               let f' = f\<lparr>closeFunc := AgainError\<rparr>
               in if err0 \<noteq> None then (err0, f', w2) else (err1, f', w2)))"

definition closeAfterFailedRename :: "File \<Rightarrow> world \<Rightarrow> error option \<times> File \<times> world" where
  "closeAfterFailedRename f w =
     (let f' = f\<lparr>closeFunc := AgainError\<rparr>
      in case os_Remove (Name f') w of (err, w1) \<Rightarrow> (err, f', w1))"

definition closeCommitted :: "File \<Rightarrow> world \<Rightarrow> error option \<times> File \<times> world" where
  "closeCommitted f w = (None, f, w)"

definition closeAgainError :: "File \<Rightarrow> world \<Rightarrow> error option \<times> File \<times> world" where
  "closeAgainError f w = (Some ErrInvalid, f, w)"

text \<open>\<open>Close\<close> calls the function the field \<open>closeFunc\<close> holds.\<close>

definition Close :: "File \<Rightarrow> world \<Rightarrow> error option \<times> File \<times> world" where
  "Close f w =
     (case closeFunc f of
        Uncommitted \<Rightarrow> closeUncommitted f w
      | AfterFailedRename \<Rightarrow> closeAfterFailedRename f w
      | Committed \<Rightarrow> closeCommitted f w
      | AgainError \<Rightarrow> closeAgainError f w)"

definition Commit :: "File \<Rightarrow> world \<Rightarrow> error option \<times> File \<times> world" where
  "Commit f w =
     (case os_Sync (fd f) w of
        (Some err, w1) \<Rightarrow> (Some err, f, w1)
      | (None, w1) \<Rightarrow>
          (case os_Close (fd f) w1 of
             (Some err, w2) \<Rightarrow> (Some err, f, w2)
           | (None, w2) \<Rightarrow>
               (case os_Rename (Name f) (origName f) w2 of
                  (Some err, w3) \<Rightarrow> (Some err, f\<lparr>closeFunc := AfterFailedRename\<rparr>, w3)
                | (None, w3) \<Rightarrow> (None, f\<lparr>closeFunc := Committed\<rparr>, w3))))"



subsection \<open>The earlier revision\<close>

text \<open>
  In the earlier revision of the package \<open>makeTempName\<close> and \<open>Create\<close> are the same,
  statement for statement, and the handle has no field \<open>closeFunc\<close>: the functions below
  neither read nor change it. There is no \<open>Commit\<close>: \<open>Close\<close> is \<open>CloseEx(true)\<close>,
  which syncs, closes and renames, and on an error closes and, as \<open>deleteOnError\<close> says,
  removes the temporary file. The names of this revision carry the suffix \<open>v1\<close>.
\<close>

definition CloseEx :: "bool \<Rightarrow> File \<Rightarrow> world \<Rightarrow> error option \<times> world" where
  "CloseEx deleteOnError f w =
     (case os_Sync (fd f) w of
        (Some err, w1) \<Rightarrow>
          (case os_Close (fd f) w1 of
             (_, w2) \<Rightarrow>
               if deleteOnError
               then (case os_Remove (Name f) w2 of (_, w3) \<Rightarrow> (Some err, w3))
               else (Some err, w2))
      | (None, w1) \<Rightarrow>
          (case os_Close (fd f) w1 of
             (Some err, w2) \<Rightarrow>
               if deleteOnError
               then (case os_Remove (Name f) w2 of (_, w3) \<Rightarrow> (Some err, w3))
               else (Some err, w2)
           | (None, w2) \<Rightarrow>
               (case os_Rename (Name f) (origName f) w2 of
                  (Some err, w3) \<Rightarrow>
                    if deleteOnError
                    then (case os_Remove (Name f) w3 of (_, w4) \<Rightarrow> (Some err, w4))
                    else (Some err, w3)
                | (None, w3) \<Rightarrow> (None, w3))))"

definition Close_v1 :: "File \<Rightarrow> world \<Rightarrow> error option \<times> world" where
  "Close_v1 f w = CloseEx True f w"

definition WriteFile_v1_with ::
  "(nat \<Rightarrow> string \<Rightarrow> world \<Rightarrow> (nat \<times> error option) \<times> world) \<Rightarrow>
   string \<Rightarrow> string \<Rightarrow> 32 word \<Rightarrow> world \<Rightarrow> (error option \<times> world) option" where
  "WriteFile_v1_with Write filename data perm w =
     (case Create filename perm w of
        None \<Rightarrow> None
      | Some (Inl err, w1) \<Rightarrow> Some (Some err, w1)
      | Some (Inr f, w1) \<Rightarrow>
          (case Write (fd f) data w1 of
             ((n, Some err), w2) \<Rightarrow>
               (case Close_v1 f w2 of (_, w3) \<Rightarrow> Some (Some err, w3))
           | ((n, None), w2) \<Rightarrow>
               if n < length data
               then (case Close_v1 f w2 of (_, w3) \<Rightarrow> Some (Some ErrShortWrite, w3))
               else (case Close_v1 f w2 of (err, w3) \<Rightarrow> Some (err, w3))))"

definition WriteFile_v1 :: "string \<Rightarrow> string \<Rightarrow> 32 word \<Rightarrow> world \<Rightarrow> (error option \<times> world) option" where
  "WriteFile_v1 filename data perm w = WriteFile_v1_with os_Write filename data perm w"

subsection \<open>The test of a double Commit\<close>

text \<open>
  \<open>TestDoubleCommit\<close>, with the file name it builds as a parameter. The verdict is
  \<open>Passed\<close> or the \<open>t.Fatalf\<close> it reaches, with the error that call prints.
\<close>

datatype verdict =
    Passed
  | Create_failed error
  | First_commit_failed error
  | Second_commit_didnt_fail "error option"
  | Close_failed error

definition TestDoubleCommit :: "string \<Rightarrow> world \<Rightarrow> (verdict \<times> world) option" where
  "TestDoubleCommit name w =
     (case Create name 438 w of
        None \<Rightarrow> None
      | Some (Inl err, w1) \<Rightarrow> Some (Create_failed err, w1)
      | Some (Inr f, w1) \<Rightarrow>
          (case Commit f w1 of
             (Some err, f1, w2) \<Rightarrow>
               (case os_Remove name w2 of (_, w3) \<Rightarrow> Some (First_commit_failed err, w3))
           | (None, f1, w2) \<Rightarrow>
               (case Commit f1 w2 of
                  (err, f2, w3) \<Rightarrow>
                    if err \<noteq> Some ErrAlreadyCommitted
                    then (case os_Remove name w3 of
                            (_, w4) \<Rightarrow> Some (Second_commit_didnt_fail err, w4))
                    else
                      (case Close f2 w3 of
                         (Some err, f3, w4) \<Rightarrow>
                           (case os_Remove name w4 of (_, w5) \<Rightarrow> Some (Close_failed err, w5))
                       | (None, f3, w4) \<Rightarrow>
                           (case os_Remove name w4 of (_, w5) \<Rightarrow> Some (Passed, w5))))))"

section \<open>Observations\<close>

text \<open>The calls issued between an earlier world and a later one, with their outcomes.\<close>

definition events_since :: "world \<Rightarrow> world \<Rightarrow> (call \<times> cause option) list" where
  "events_since w w' = drop (length (trace w)) (trace w')"

text \<open>The error of the first failed call of a list of outcomes, \<open>None\<close> when none failed.\<close>

fun first_failure :: "cause option list \<Rightarrow> error option" where
  "first_failure [] = None"
| "first_failure (None # rs) = first_failure rs"
| "first_failure (Some e # rs) = Some (PathError e)"

text \<open>A caller that calls \<open>Close\<close> on the same handle n times and collects the results.\<close>

fun Close_times :: "nat \<Rightarrow> File \<Rightarrow> world \<Rightarrow> error option list \<times> File \<times> world" where
  "Close_times 0 f w = ([], f, w)"
| "Close_times (Suc n) f w =
     (case Close f w of
        (r, f1, w1) \<Rightarrow> (case Close_times n f1 w1 of (rs, f2, w2) \<Rightarrow> (r # rs, f2, w2)))"

text \<open>
  A caller that calls \<open>Commit\<close> and then \<open>Close\<close> on the handle as \<open>Commit\<close> left it, as
  the documentation of \<open>Commit\<close> asks after an error and as \<open>testInTempDir\<close> does.
\<close>

definition Commit_then_Close :: "File \<Rightarrow> world \<Rightarrow> error option \<times> error option \<times> File \<times> world" where
  "Commit_then_Close f w =
     (case Commit f w of
        (r1, f1, w1) \<Rightarrow> (case Close f1 w1 of (r2, f2, w2) \<Rightarrow> (r1, r2, f2, w2)))"

text \<open>
  The candidate path of the i-th iteration of the loop of \<open>Create\<close> started in \<open>w\<close>:
  built from the i-th reading of the clock from then on and the counter i.
\<close>

definition candidate :: "string \<Rightarrow> world \<Rightarrow> nat \<Rightarrow> string" where
  "candidate filename w i =
     Join [Dir (Clean filename), Sprintf_tmp (clock w (ticks w + i)) (of_nat i)]"

text \<open>The first n attempts of \<open>Create\<close>, each answered that the file exists.\<close>

definition collisions :: "string \<Rightarrow> 32 word \<Rightarrow> world \<Rightarrow> nat \<Rightarrow> (call \<times> cause option) list" where
  "collisions filename perm w n =
     map (\<lambda>i. (OpenFile_call (candidate filename w i) {O_RDWR, O_CREATE} perm, Some EEXIST))
       [0..<n]"

text \<open>
  What the file system answers to a sync or a close of the open file \<open>d\<close>, and to a
  rename or a removal of the path \<open>p\<close>, issued as the k-th call in the world \<open>w\<close>:
  \<open>None\<close> when the call succeeds.
\<close>

definition file_outcome :: "nat \<Rightarrow> nat \<Rightarrow> world \<Rightarrow> cause option" where
  "file_outcome d k w = (if fds w d = None then Some ErrClosed else faults w k)"

definition path_outcome :: "string \<Rightarrow> nat \<Rightarrow> world \<Rightarrow> cause option" where
  "path_outcome p k w =
     (case faults w k of
        Some e \<Rightarrow> Some e
      | None \<Rightarrow> if files w p = None then Some ENOENT else None)"



section \<open>Concrete worlds\<close>

text \<open>
  An empty file system in which no call fails; the clock starts at the reading of the
  package documentation's example, \<open>133a7876287381fa\<close>, and advances by one nanosecond
  per reading.
\<close>

definition world0 :: world where
  "world0 = \<lparr>files = Map.empty, fds = Map.empty, next_fd = 3, trace = [], ticks = 0,
             clock = (\<lambda>k. 0x133a7876287381fa + of_nat k),
             faults = (\<lambda>k. None), shorts = (\<lambda>k. None)\<rparr>"

text \<open>
  The handle and the world after \<open>Create("/home/ken/report.txt", 0666)\<close> in \<open>world0\<close>
  (lemma \<open>Create_report\<close>).
\<close>

definition tmp1 :: string where
  "tmp1 = ''/home/ken/133a7876287381fa-0.tmp''"

definition file1 :: File where
  "file1 = \<lparr>fd = 3, Name = tmp1, origName = ''/home/ken/report.txt'', closeFunc = Uncommitted\<rparr>"

definition world1 :: world where
  "world1 = world0\<lparr>files := [tmp1 \<mapsto> []], fds := [3 \<mapsto> (tmp1, 0)], next_fd := 4,
       trace := [(OpenFile_call tmp1 {O_RDWR, O_CREATE} 438, None)], ticks := 1\<rparr>"

text \<open>\<open>world1\<close> where the call after \<open>Create\<close>'s fails with an I/O error.\<close>

definition world1_fail1 :: world where
  "world1_fail1 = world1\<lparr>faults := (\<lambda>k. if k = 1 then Some EIO else None)\<rparr>"

text \<open>\<open>world1\<close> where the second call after \<open>Create\<close>'s fails with an I/O error.\<close>

definition world1_fail2 :: world where
  "world1_fail2 = world1\<lparr>faults := (\<lambda>k. if k = 2 then Some EIO else None)\<rparr>"

text \<open>\<open>world1\<close> where the third call after \<open>Create\<close>'s fails: a rename across devices.\<close>

definition world1_fail3 :: world where
  "world1_fail3 = world1\<lparr>faults := (\<lambda>k. if k = 3 then Some EXDEV else None)\<rparr>"

text \<open>The world after a successful \<open>Commit\<close> of \<open>file1\<close> in \<open>world1\<close>.\<close>

definition world2 :: world where
  "world2 = world1\<lparr>files := [''/home/ken/report.txt'' \<mapsto> []], fds := Map.empty,
     trace := trace world1 @ [(Sync_call 3, None), (Close_call 3, None),
                              (Rename_call tmp1 ''/home/ken/report.txt'', None)]\<rparr>"

text \<open>\<open>world0\<close> where a file already lies at the first candidate path.\<close>

definition world_taken :: world where
  "world_taken = world0\<lparr>files := [tmp1 \<mapsto> ''precious'']\<rparr>"

text \<open>\<open>world1\<close> under a clock whose readings do not advance.\<close>

definition world1_coarse :: world where
  "world1_coarse = world1\<lparr>clock := (\<lambda>k. 0x133a7876287381fa)\<rparr>"

text \<open>\<open>world0\<close> where the first two calls find an existing file and every later call is denied.\<close>

definition world_busy :: world where
  "world_busy = world0\<lparr>faults := (\<lambda>k. if k < 2 then Some EEXIST else Some EACCES)\<rparr>"


section \<open>Properties\<close>

subsection \<open>The calls into package \<open>os\<close>\<close>

lemma os_Sync_result:
  "os_Sync d w = (r, w') \<Longrightarrow>
     (r = None \<and> fds w d \<noteq> None \<and> w' = log_call (Sync_call d) None w) \<or>
     (\<exists>e. r = Some (PathError e) \<and> w' = log_call (Sync_call d) (Some e) w)"
  by (auto simp: os_Sync_def Let_def split: option.splits)

lemma os_Sync_closed:
  "fds w d = None \<Longrightarrow>
     os_Sync d w = (Some (PathError ErrClosed), log_call (Sync_call d) (Some ErrClosed) w)"
  by (simp add: os_Sync_def)

lemma os_Close_closed:
  "fds w d = None \<Longrightarrow>
     os_Close d w = (Some (PathError ErrClosed), log_call (Close_call d) (Some ErrClosed) w)"
  by (simp add: os_Close_def)

lemma os_Close_result:
  "os_Close d w = (r, w') \<Longrightarrow>
     (r = None \<and> fds w d \<noteq> None \<and>
        w' = log_call (Close_call d) None (w\<lparr>fds := (fds w)(d := None)\<rparr>)) \<or>
     (\<exists>e. r = Some (PathError e) \<and>
        w' = log_call (Close_call d) (Some e) (w\<lparr>fds := (fds w)(d := None)\<rparr>))"
proof (cases "fds w d")
  case None
  assume a: "os_Close d w = (r, w')"
  from None have "(fds w)(d := None) = fds w" by (simp add: fun_upd_idem)
  with None a show ?thesis
    by (auto simp: os_Close_def Let_def)
next
  case (Some x)
  assume a: "os_Close d w = (r, w')"
  with Some show ?thesis
    by (auto simp: os_Close_def Let_def split: option.splits)
qed

lemma os_Remove_result:
  "os_Remove p w = (r, w') \<Longrightarrow>
     (r = None \<and> files w p \<noteq> None \<and>
        w' = log_call (Remove_call p) None (w\<lparr>files := (files w)(p := None)\<rparr>)) \<or>
     (\<exists>e. r = Some (PathError e) \<and> w' = log_call (Remove_call p) (Some e) w)"
  by (auto simp: os_Remove_def Let_def split: option.splits)

lemma os_Rename_result:
  "os_Rename a b w = (r, w') \<Longrightarrow>
     (r = None \<and> (\<exists>c. files w a = Some c \<and>
        w' = log_call (Rename_call a b) None (w\<lparr>files := ((files w)(a := None))(b \<mapsto> c)\<rparr>))) \<or>
     (\<exists>e. r = Some (PathError e) \<and> w' = log_call (Rename_call a b) (Some e) w)"
  by (auto simp: os_Rename_def Let_def split: option.splits)

text \<open>The same four calls, each as the file system's answer to it determines it.\<close>

lemma os_Sync_outcome:
  "os_Sync d w =
     (map_option PathError (file_outcome d (length (trace w)) w),
      w\<lparr>trace := trace w @ [(Sync_call d, file_outcome d (length (trace w)) w)]\<rparr>)"
  by (auto simp: os_Sync_def file_outcome_def fault_now_def log_call_def Let_def
      split: option.splits)

lemma os_Close_outcome:
  "os_Close d w =
     (map_option PathError (file_outcome d (length (trace w)) w),
      w\<lparr>fds := (fds w)(d := None),
        trace := trace w @ [(Close_call d, file_outcome d (length (trace w)) w)]\<rparr>)"
proof (cases "fds w d")
  case None
  then have "(fds w)(d := None) = fds w" by (simp add: fun_upd_idem)
  with None show ?thesis
    by (simp add: os_Close_def file_outcome_def log_call_def)
next
  case (Some x)
  then show ?thesis
    by (auto simp: os_Close_def file_outcome_def fault_now_def log_call_def Let_def
        split: option.splits)
qed

lemma os_Remove_outcome:
  "os_Remove p w =
     (map_option PathError (path_outcome p (length (trace w)) w),
      w\<lparr>files := (if path_outcome p (length (trace w)) w = None
                   then (files w)(p := None) else files w),
        trace := trace w @ [(Remove_call p, path_outcome p (length (trace w)) w)]\<rparr>)"
  by (auto simp: os_Remove_def path_outcome_def fault_now_def log_call_def Let_def
      split: option.splits)

lemma os_Rename_outcome:
  "os_Rename a b w =
     (map_option PathError (path_outcome a (length (trace w)) w),
      w\<lparr>files := (if path_outcome a (length (trace w)) w = None
                   then ((files w)(a := None))(b \<mapsto> the (files w a)) else files w),
        trace := trace w @ [(Rename_call a b, path_outcome a (length (trace w)) w)]\<rparr>)"
  by (auto simp: os_Rename_def path_outcome_def fault_now_def log_call_def Let_def
      split: option.splits)

lemma path_outcome_upd [simp]:
  "path_outcome p k (w\<lparr>trace := t\<rparr>) = path_outcome p k w"
  "path_outcome p k (w\<lparr>fds := a\<rparr>) = path_outcome p k w"
  "file_outcome d k (w\<lparr>trace := t\<rparr>) = file_outcome d k w"
  "file_outcome d k (w\<lparr>files := b\<rparr>) = file_outcome d k w"
  by (auto simp: path_outcome_def file_outcome_def)

lemma path_outcome_None: "path_outcome p k w = None \<Longrightarrow> \<exists>c. files w p = Some c"
  by (auto simp: path_outcome_def split: option.splits if_splits)

subsection \<open>The documentation's example\<close>



subsection \<open>Evaluation\<close>

lemmas eval_defs = file1_def world1_def world0_def tmp1_def fault_now_def short_now_def log_call_def
  os_Sync_def os_Close_def os_Rename_def os_Remove_def os_Write_def
  Commit_def Close_def closeUncommitted_def closeAfterFailedRename_def closeCommitted_def
  closeAgainError_def Let_def events_since_def

subsection \<open>Close on an open handle\<close>

lemma closeUncommitted_eq:
  "closeUncommitted f w =
     (first_failure [file_outcome (fd f) (length (trace w)) w,
                     path_outcome (Name f) (Suc (length (trace w))) w],
      f\<lparr>closeFunc := AgainError\<rparr>,
      w\<lparr>files := (if path_outcome (Name f) (Suc (length (trace w))) w = None
                   then (files w)(Name f := None) else files w),
        fds := (fds w)(fd f := None),
        trace := trace w @ [(Close_call (fd f), file_outcome (fd f) (length (trace w)) w),
                            (Remove_call (Name f), path_outcome (Name f) (Suc (length (trace w))) w)]\<rparr>)"
  by (cases "file_outcome (fd f) (length (trace w)) w";
      cases "path_outcome (Name f) (Suc (length (trace w))) w")
    (simp_all add: closeUncommitted_def os_Close_outcome os_Remove_outcome Let_def)

text \<open>
  C6. \<open>Close\<close> on a handle in the Open state (its \<open>closeFunc\<close> is
  \<open>closeUncommitted\<close>) issues exactly two calls, whatever their outcomes: the close of
  the underlying file, then the removal of the temporary file, each with the outcome the
  file system gives it. Its result is the error of the first of the two that failed, and
  success when neither did. Afterwards the underlying file is closed, and the temporary
  file is gone when the removal succeeded; nothing else has changed in the files.
\<close>

theorem Close_uncommitted:
  assumes "closeFunc f = Uncommitted" and "Close f w = (r, f', w')"
  shows "events_since w w' =
           [(Close_call (fd f), file_outcome (fd f) (length (trace w)) w),
            (Remove_call (Name f), path_outcome (Name f) (Suc (length (trace w))) w)] \<and>
         take (length (trace w)) (trace w') = trace w \<and>
         r = first_failure (map snd (events_since w w')) \<and>
         closeFunc f' = AgainError \<and>
         fds w' = (fds w)(fd f := None) \<and>
         files w' =
           (if path_outcome (Name f) (Suc (length (trace w))) w = None
            then (files w)(Name f := None) else files w)"
proof -
  from assms have "closeUncommitted f w = (r, f', w')"
    by (simp add: Close_def)
  then show ?thesis
    by (auto simp: closeUncommitted_eq events_since_def)
qed

theorem Close_uncommitted_witness:
  "closeFunc file1 = Uncommitted \<and>
   Close file1 world1 =
     (None, file1\<lparr>closeFunc := AgainError\<rparr>,
      world1\<lparr>files := Map.empty, fds := Map.empty,
        trace := trace world1 @ [(Close_call 3, None), (Remove_call tmp1, None)]\<rparr>) \<and>
   Close file1 world1_fail1 =
     (Some (PathError EIO), file1\<lparr>closeFunc := AgainError\<rparr>,
      world1_fail1\<lparr>files := Map.empty, fds := Map.empty,
        trace := trace world1_fail1 @ [(Close_call 3, Some EIO), (Remove_call tmp1, None)]\<rparr>)"
proof -
  have u: "closeFunc file1 = Uncommitted" by (simp add: file1_def)
  obtain r f' w' where c: "Close file1 world1 = (r, f', w')" by (metis prod.exhaust)
  obtain r1 f1 w1 where c1: "Close file1 world1_fail1 = (r1, f1, w1)" by (metis prod.exhaust)
  have "r = None \<and> f' = file1\<lparr>closeFunc := AgainError\<rparr> \<and>
        w' = world1\<lparr>files := Map.empty, fds := Map.empty,
               trace := trace world1 @ [(Close_call 3, None), (Remove_call tmp1, None)]\<rparr>"
    using Close_uncommitted [OF u c] c
    by (simp add: eval_defs)
  moreover have "r1 = Some (PathError EIO) \<and> f1 = file1\<lparr>closeFunc := AgainError\<rparr> \<and>
        w1 = world1_fail1\<lparr>files := Map.empty, fds := Map.empty,
               trace := trace world1_fail1 @ [(Close_call 3, Some EIO), (Remove_call tmp1, None)]\<rparr>"
    using Close_uncommitted [OF u c1] c1
    by (simp add: eval_defs world1_fail1_def)
  ultimately show ?thesis using u c c1 by simp
qed

subsection \<open>Commit and Close\<close>

lemma Commit_success:
  assumes "Commit f w = (None, f', w')"
  shows "f' = f\<lparr>closeFunc := Committed\<rparr> \<and>
         (\<exists>c. files w (Name f) = Some c \<and>
              w' = w\<lparr>files := ((files w)(Name f := None))(origName f \<mapsto> c),
                     fds := (fds w)(fd f := None),
                     trace := trace w @ [(Sync_call (fd f), None), (Close_call (fd f), None),
                                (Rename_call (Name f) (origName f), None)]\<rparr>)"
proof -
  obtain r1 w1 where s: "os_Sync (fd f) w = (r1, w1)" by (cases "os_Sync (fd f) w")
  obtain r2 w2 where c: "os_Close (fd f) w1 = (r2, w2)" by (cases "os_Close (fd f) w1")
  obtain r3 w3 where r: "os_Rename (Name f) (origName f) w2 = (r3, w3)"
    by (cases "os_Rename (Name f) (origName f) w2")
  from assms s c r have ok: "r1 = None" "r2 = None" "r3 = None" "w' = w3"
    "f' = f\<lparr>closeFunc := Committed\<rparr>"
    by (auto simp: Commit_def split: option.splits)
  from os_Sync_result [OF s] os_Close_result [OF c] os_Rename_result [OF r] ok show ?thesis
    by (auto simp: log_call_def)
qed

lemma Close_times_Committed:
  "closeFunc f = Committed \<Longrightarrow> Close_times n f w = (replicate n None, f, w)"
  by (induction n) (simp_all add: Close_def closeCommitted_def)

lemma Close_times_AgainError:
  "closeFunc f = AgainError \<Longrightarrow> Close_times n f w = (replicate n (Some ErrInvalid), f, w)"
  by (induction n) (simp_all add: Close_def closeAgainError_def)

text \<open>
  C7. When \<open>Commit\<close> has succeeded, any number of \<open>Close\<close> calls on the handle as
  \<open>Commit\<close> left it all return success and leave the handle and the whole world as they
  were: no call is issued, and the destination holds what the temporary file held when
  \<open>Commit\<close> was called.
\<close>

theorem Close_after_Commit:
  assumes "Commit f w = (None, f', w')"
  shows "Close_times n f' w' = (replicate n None, f', w') \<and>
         files w' (origName f) = files w (Name f) \<and> files w' (origName f) \<noteq> None"
proof -
  from Commit_success [OF assms] have "closeFunc f' = Committed"
    and "files w' (origName f) = files w (Name f)" and "files w' (origName f) \<noteq> None"
    by auto
  then show ?thesis by (simp add: Close_times_Committed)
qed

theorem Close_after_Commit_witness:
  "Commit file1 world1 = (None, file1\<lparr>closeFunc := Committed\<rparr>, world2) \<and>
   Close_times 2 (file1\<lparr>closeFunc := Committed\<rparr>) world2 =
     ([None, None], file1\<lparr>closeFunc := Committed\<rparr>, world2) \<and>
   files world2 ''/home/ken/report.txt'' = Some [] \<and> files world2 tmp1 = None"
proof -
  have c: "Commit file1 world1 = (None, file1\<lparr>closeFunc := Committed\<rparr>, world2)"
    by (simp add: eval_defs world2_def)
  from Close_after_Commit [OF c, of 2] c show ?thesis
    by (simp add: numeral_2_eq_2 eval_defs world2_def)
qed

text \<open>
  C10. After a \<open>Close\<close> from the Open state or after a failed rename, any number of
  further \<open>Close\<close> calls on the handle all return \<open>os.ErrInvalid\<close> and leave the
  handle and the whole world as they were: no call is issued, so the close and the removal
  happen once.
\<close>

theorem Close_again:
  assumes "closeFunc f = Uncommitted \<or> closeFunc f = AfterFailedRename"
    and "Close f w = (r, f1, w1)"
  shows "Close_times n f1 w1 = (replicate n (Some ErrInvalid), f1, w1)"
proof -
  from assms have "closeFunc f1 = AgainError"
    by (auto simp: Close_def closeUncommitted_def closeAfterFailedRename_def Let_def
        split: prod.splits if_splits)
  then show ?thesis by (rule Close_times_AgainError)
qed


theorem Close_again_witness:
  "Close file1 world1 = (None, file1\<lparr>closeFunc := AgainError\<rparr>,
     world1\<lparr>files := Map.empty, fds := Map.empty,
       trace := trace world1 @ [(Close_call 3, None), (Remove_call tmp1, None)]\<rparr>) \<and>
   Close_times 3 (file1\<lparr>closeFunc := AgainError\<rparr>)
     (world1\<lparr>files := Map.empty, fds := Map.empty,
       trace := trace world1 @ [(Close_call 3, None), (Remove_call tmp1, None)]\<rparr>) =
     ([Some ErrInvalid, Some ErrInvalid, Some ErrInvalid], file1\<lparr>closeFunc := AgainError\<rparr>,
      world1\<lparr>files := Map.empty, fds := Map.empty,
       trace := trace world1 @ [(Close_call 3, None), (Remove_call tmp1, None)]\<rparr>)"
proof -
  have c: "Close file1 world1 = (None, file1\<lparr>closeFunc := AgainError\<rparr>,
     world1\<lparr>files := Map.empty, fds := Map.empty,
       trace := trace world1 @ [(Close_call 3, None), (Remove_call tmp1, None)]\<rparr>)"
    by (simp add: eval_defs)
  have o: "closeFunc file1 = Uncommitted \<or> closeFunc file1 = AfterFailedRename"
    by (simp add: file1_def)
  from Close_again [OF o c, of 3] c show ?thesis
    by (simp add: numeral_3_eq_3)
qed

lemma Commit_result:
  assumes "Commit f w = (r, f', w')"
  shows
    "(\<exists>e. r = Some (PathError e) \<and> f' = f \<and>
          w' = w\<lparr>trace := trace w @ [(Sync_call (fd f), Some e)]\<rparr>) \<or>
     (\<exists>e. r = Some (PathError e) \<and> f' = f \<and> fds w (fd f) \<noteq> None \<and>
          w' = w\<lparr>fds := (fds w)(fd f := None),
                 trace := trace w @ [(Sync_call (fd f), None), (Close_call (fd f), Some e)]\<rparr>) \<or>
     (\<exists>e. r = Some (PathError e) \<and> f' = f\<lparr>closeFunc := AfterFailedRename\<rparr> \<and>
          w' = w\<lparr>fds := (fds w)(fd f := None),
                 trace := trace w @ [(Sync_call (fd f), None), (Close_call (fd f), None),
                            (Rename_call (Name f) (origName f), Some e)]\<rparr>) \<or>
     (\<exists>c. r = None \<and> f' = f\<lparr>closeFunc := Committed\<rparr> \<and> files w (Name f) = Some c \<and>
          w' = w\<lparr>files := ((files w)(Name f := None))(origName f \<mapsto> c),
                 fds := (fds w)(fd f := None),
                 trace := trace w @ [(Sync_call (fd f), None), (Close_call (fd f), None),
                            (Rename_call (Name f) (origName f), None)]\<rparr>)"
proof -
  obtain r1 w1 where s: "os_Sync (fd f) w = (r1, w1)" by (cases "os_Sync (fd f) w")
  obtain r2 w2 where c: "os_Close (fd f) w1 = (r2, w2)" by (cases "os_Close (fd f) w1")
  obtain r3 w3 where r: "os_Rename (Name f) (origName f) w2 = (r3, w3)"
    by (cases "os_Rename (Name f) (origName f) w2")
  show ?thesis
  proof (cases r1)
    case (Some e1)
    with assms s have "r = r1" "f' = f" "w' = w1"
      by (auto simp: Commit_def)
    with os_Sync_result [OF s] Some show ?thesis
      by (auto simp: log_call_def)
  next
    case None
    note r1 = None
    with os_Sync_result [OF s] have w1: "w1 = log_call (Sync_call (fd f)) None w"
      and op: "fds w (fd f) \<noteq> None" by auto
    show ?thesis
    proof (cases r2)
      case (Some e2)
      with assms s c r1 have "r = r2" "f' = f" "w' = w2"
        by (auto simp: Commit_def)
      with os_Close_result [OF c] Some w1 op show ?thesis
        by (auto simp: log_call_def)
    next
      case None
      note r2 = None
      with os_Close_result [OF c] w1
      have w2: "w2 = w\<lparr>fds := (fds w)(fd f := None),
                 trace := trace w @ [(Sync_call (fd f), None), (Close_call (fd f), None)]\<rparr>"
        by (auto simp: log_call_def)
      show ?thesis
      proof (cases r3)
        case (Some e3)
        with assms s c r r1 r2 have "r = r3" "f' = f\<lparr>closeFunc := AfterFailedRename\<rparr>" "w' = w3"
          by (auto simp: Commit_def)
        with os_Rename_result [OF r] Some w2 show ?thesis
          by (auto simp: log_call_def)
      next
        case None
        with assms s c r r1 r2 have "r = None" "f' = f\<lparr>closeFunc := Committed\<rparr>" "w' = w3"
          by (auto simp: Commit_def)
        with os_Rename_result [OF r] None w2 show ?thesis
          by (auto simp: log_call_def)
      qed
    qed
  qed
qed


lemma events_since_upd [simp]:
  "events_since w (w\<lparr>trace := trace w @ xs\<rparr>) = xs"
  "events_since w (w\<lparr>fds := a, trace := trace w @ xs\<rparr>) = xs"
  "events_since w (w\<lparr>files := b, fds := a, trace := trace w @ xs\<rparr>) = xs"
  by (simp_all add: events_since_def)

lemma closeAfterFailedRename_eq:
  "closeAfterFailedRename f w =
     (map_option PathError (path_outcome (Name f) (length (trace w)) w),
      f\<lparr>closeFunc := AgainError\<rparr>,
      w\<lparr>files := (if path_outcome (Name f) (length (trace w)) w = None
                   then (files w)(Name f := None) else files w),
        trace := trace w @ [(Remove_call (Name f), path_outcome (Name f) (length (trace w)) w)]\<rparr>)"
  by (simp add: closeAfterFailedRename_def os_Remove_outcome Let_def)

lemma Commit_eq:
  "Commit f w =
     (case file_outcome (fd f) (length (trace w)) w of
        Some e \<Rightarrow>
          (Some (PathError e), f, w\<lparr>trace := trace w @ [(Sync_call (fd f), Some e)]\<rparr>)
      | None \<Rightarrow>
          (case file_outcome (fd f) (Suc (length (trace w))) w of
             Some e \<Rightarrow>
               (Some (PathError e), f,
                w\<lparr>fds := (fds w)(fd f := None),
                  trace := trace w @ [(Sync_call (fd f), None), (Close_call (fd f), Some e)]\<rparr>)
           | None \<Rightarrow>
               (case path_outcome (Name f) (Suc (Suc (length (trace w)))) w of
                  Some e \<Rightarrow>
                    (Some (PathError e), f\<lparr>closeFunc := AfterFailedRename\<rparr>,
                     w\<lparr>fds := (fds w)(fd f := None),
                       trace := trace w @ [(Sync_call (fd f), None), (Close_call (fd f), None),
                                  (Rename_call (Name f) (origName f), Some e)]\<rparr>)
                | None \<Rightarrow>
                    (None, f\<lparr>closeFunc := Committed\<rparr>,
                     w\<lparr>files := ((files w)(Name f := None))
                                 (origName f \<mapsto> the (files w (Name f))),
                       fds := (fds w)(fd f := None),
                       trace := trace w @ [(Sync_call (fd f), None), (Close_call (fd f), None),
                                  (Rename_call (Name f) (origName f), None)]\<rparr>))))"
  by (cases "file_outcome (fd f) (length (trace w)) w";
      cases "file_outcome (fd f) (Suc (length (trace w))) w";
      cases "path_outcome (Name f) (Suc (Suc (length (trace w)))) w")
    (simp_all add: Commit_def os_Sync_outcome os_Close_outcome os_Rename_outcome)

text \<open>
  C2. \<open>Commit\<close> only appends to the calls issued, and it runs in one of four ways,
  decided by what the file system answers: the sync fails and is the only call; the sync
  succeeds, the close fails and is the last call; sync and close succeed and the rename
  fails; or all three succeed. The calls are the sync, the close and the rename, in this
  order, and none follows a failed one. The result is the error of the failed call. While
  \<open>Commit\<close> fails the files are untouched; after a failed rename the handle holds
  \<open>closeAfterFailedRename\<close> and a \<open>Close\<close> issues the removal of the temporary file
  and nothing else; when no call fails the handle holds \<open>closeCommitted\<close>, the
  destination holds the temporary file's content and the temporary path is free unless it
  is the destination itself.
\<close>

theorem Commit_steps:
  assumes "Commit f w = (r, f', w')" and "k = length (trace w)"
  shows "take k (trace w') = trace w \<and>
    ((\<exists>e. file_outcome (fd f) k w = Some e \<and>
          events_since w w' = [(Sync_call (fd f), Some e)] \<and>
          r = Some (PathError e) \<and> f' = f \<and> files w' = files w \<and> fds w' = fds w) \<or>
     (\<exists>e. file_outcome (fd f) k w = None \<and> file_outcome (fd f) (k + 1) w = Some e \<and>
          events_since w w' = [(Sync_call (fd f), None), (Close_call (fd f), Some e)] \<and>
          r = Some (PathError e) \<and> f' = f \<and> files w' = files w \<and>
          fds w' = (fds w)(fd f := None)) \<or>
     (\<exists>e. file_outcome (fd f) k w = None \<and> file_outcome (fd f) (k + 1) w = None \<and>
          path_outcome (Name f) (k + 2) w = Some e \<and>
          events_since w w' = [(Sync_call (fd f), None), (Close_call (fd f), None),
                               (Rename_call (Name f) (origName f), Some e)] \<and>
          r = Some (PathError e) \<and> f' = f\<lparr>closeFunc := AfterFailedRename\<rparr> \<and>
          files w' = files w \<and> fds w' = (fds w)(fd f := None) \<and>
          Close f' w' =
            (map_option PathError (path_outcome (Name f) (k + 3) w),
             f\<lparr>closeFunc := AgainError\<rparr>,
             w'\<lparr>files := (if path_outcome (Name f) (k + 3) w = None
                           then (files w)(Name f := None) else files w),
                trace := trace w' @ [(Remove_call (Name f), path_outcome (Name f) (k + 3) w)]\<rparr>)) \<or>
     (\<exists>c. file_outcome (fd f) k w = None \<and> file_outcome (fd f) (k + 1) w = None \<and>
          path_outcome (Name f) (k + 2) w = None \<and>
          events_since w w' = [(Sync_call (fd f), None), (Close_call (fd f), None),
                               (Rename_call (Name f) (origName f), None)] \<and>
          r = None \<and> f' = f\<lparr>closeFunc := Committed\<rparr> \<and> files w (Name f) = Some c \<and>
          files w' = ((files w)(Name f := None))(origName f \<mapsto> c) \<and>
          fds w' = (fds w)(fd f := None)))"
proof (cases "file_outcome (fd f) k w")
  case (Some e)
  with assms show ?thesis
    by (simp add: Commit_eq events_since_def) auto
next
  case None
  note o1 = None
  show ?thesis
  proof (cases "file_outcome (fd f) (k + 1) w")
    case (Some e)
    with assms o1 show ?thesis
      by (simp add: Commit_eq events_since_def) auto
  next
    case None
    note o2 = None
    show ?thesis
    proof (cases "path_outcome (Name f) (k + 2) w")
      case (Some e)
      with assms o1 o2 have c: "r = Some (PathError e)" "f' = f\<lparr>closeFunc := AfterFailedRename\<rparr>"
        "w' = w\<lparr>fds := (fds w)(fd f := None),
                 trace := trace w @ [(Sync_call (fd f), None), (Close_call (fd f), None),
                            (Rename_call (Name f) (origName f), Some e)]\<rparr>"
        by (simp_all add: Commit_eq)
      from c(2,3) assms(2) have "Close f' w' =
            (map_option PathError (path_outcome (Name f) (k + 3) w),
             f\<lparr>closeFunc := AgainError\<rparr>,
             w'\<lparr>files := (if path_outcome (Name f) (k + 3) w = None
                           then (files w)(Name f := None) else files w),
                trace := trace w' @ [(Remove_call (Name f), path_outcome (Name f) (k + 3) w)]\<rparr>)"
        by (simp add: Close_def closeAfterFailedRename_eq eval_nat_numeral)
      with c o1 o2 Some assms(2) show ?thesis
        by (simp add: events_since_def)
    next
      case None
      from path_outcome_None [OF None] obtain c where c: "files w (Name f) = Some c" ..
      with assms o1 o2 None show ?thesis
        by (auto simp: Commit_eq events_since_def)
    qed
  qed
qed

theorem Commit_steps_witness:
  "Commit file1 world1 = (None, file1\<lparr>closeFunc := Committed\<rparr>, world2) \<and>
   files world2 ''/home/ken/report.txt'' = Some [] \<and> files world2 tmp1 = None \<and>
   Commit file1 world1_fail3 =
     (Some (PathError EXDEV), file1\<lparr>closeFunc := AfterFailedRename\<rparr>,
      world1_fail3\<lparr>fds := Map.empty,
        trace := trace world1_fail3 @ [(Sync_call 3, None), (Close_call 3, None),
                   (Rename_call tmp1 ''/home/ken/report.txt'', Some EXDEV)]\<rparr>) \<and>
   files (snd (snd (Commit file1 world1_fail3))) tmp1 = Some [] \<and>
   Close (file1\<lparr>closeFunc := AfterFailedRename\<rparr>) (snd (snd (Commit file1 world1_fail3))) =
     (None, file1\<lparr>closeFunc := AgainError\<rparr>,
      world1_fail3\<lparr>files := Map.empty, fds := Map.empty,
        trace := trace world1_fail3 @ [(Sync_call 3, None), (Close_call 3, None),
                   (Rename_call tmp1 ''/home/ken/report.txt'', Some EXDEV),
                   (Remove_call tmp1, None)]\<rparr>)"
proof -
  obtain r f' w' where c: "Commit file1 world1 = (r, f', w')" by (metis prod.exhaust)
  obtain r3 f3 w3 where c3: "Commit file1 world1_fail3 = (r3, f3, w3)" by (metis prod.exhaust)
  have k: "1 = length (trace world1)" "1 = length (trace world1_fail3)"
    by (simp_all add: world1_def world1_fail3_def)
  have a: "r = None \<and> f' = file1\<lparr>closeFunc := Committed\<rparr> \<and> w' = world2"
    using Commit_steps [OF c k(1)] c
    by (simp add: eval_defs world2_def)
  have b: "r3 = Some (PathError EXDEV) \<and> f3 = file1\<lparr>closeFunc := AfterFailedRename\<rparr> \<and>
      w3 = world1_fail3\<lparr>fds := Map.empty,
        trace := trace world1_fail3 @ [(Sync_call 3, None), (Close_call 3, None),
                   (Rename_call tmp1 ''/home/ken/report.txt'', Some EXDEV)]\<rparr>"
    using Commit_steps [OF c3 k(2)] c3
    by (simp add: eval_defs world1_fail3_def)
  from a b c c3 show ?thesis
    by (simp add: eval_defs world2_def world1_fail3_def)
qed

text \<open>
  When the close step of \<open>Commit\<close> fails on a handle in the Open state, \<open>Commit\<close>
  returns that error, the files are untouched and the underlying file is closed, but the
  handle still holds \<open>closeUncommitted\<close>: a following \<open>Close\<close> calls the close of the
  underlying file a second time, returns its error that the file is already closed, and
  issues the removal of the temporary file.
\<close>

lemma Commit_close_failed:
  assumes "Commit f w = (r, f', w')"
    and "events_since w w' = [(Sync_call (fd f), None), (Close_call (fd f), Some e)]"
    and "closeFunc f = Uncommitted"
  shows "r = Some (PathError e) \<and> f' = f \<and> files w' = files w \<and> fds w' (fd f) = None \<and>
         fst (Close f' w') = Some (PathError ErrClosed) \<and>
         events_since w' (snd (snd (Close f' w'))) =
           [(Close_call (fd f), Some ErrClosed),
            (Remove_call (Name f), snd (last (trace (snd (snd (Close f' w'))))))]"
proof -
  from Commit_result [OF assms(1)] assms(2)
  have c: "r = Some (PathError e)" "f' = f"
    "w' = w\<lparr>fds := (fds w)(fd f := None),
                 trace := trace w @ [(Sync_call (fd f), None), (Close_call (fd f), Some e)]\<rparr>"
    by auto
  then have closed: "fds w' (fd f) = None" by simp
  obtain r1 w1 where rm: "os_Remove (Name f) (log_call (Close_call (fd f)) (Some ErrClosed) w') = (r1, w1)"
    by (cases "os_Remove (Name f) (log_call (Close_call (fd f)) (Some ErrClosed) w')")
  with closed assms(3) c(2)
  have cl: "Close f' w' = (Some (PathError ErrClosed), f\<lparr>closeFunc := AgainError\<rparr>, w1)"
    by (simp add: Close_def closeUncommitted_def os_Close_closed)
  from os_Remove_result [OF rm]
  have "events_since w' w1 =
         [(Close_call (fd f), Some ErrClosed), (Remove_call (Name f), snd (last (trace w1)))]"
    by (auto simp: log_call_def events_since_def)
  with c closed cl show ?thesis by simp
qed

text \<open>
  C8 fails on the code: with an I/O error in the close step of \<open>Commit\<close>, \<open>Commit\<close>
  returns that error and the temporary file still exists, but the following \<open>Close\<close>
  issues a second close of the same underlying file and returns its error, although the
  removal succeeds. After a failed rename \<open>Close\<close> does not close again, and in the
  earlier revision \<open>CloseEx\<close> closes once and then only removes.
\<close>

theorem Commit_close_failed_closes_twice:
  "Commit_then_Close file1 world1_fail2 =
     (Some (PathError EIO), Some (PathError ErrClosed), file1\<lparr>closeFunc := AgainError\<rparr>,
      world1_fail2\<lparr>files := Map.empty, fds := Map.empty,
        trace := trace world1_fail2 @
          [(Sync_call 3, None), (Close_call 3, Some EIO),
           (Close_call 3, Some ErrClosed), (Remove_call tmp1, None)]\<rparr>) \<and>
   Commit_then_Close file1 world1_fail3 =
     (Some (PathError EXDEV), None, file1\<lparr>closeFunc := AgainError\<rparr>,
      world1_fail3\<lparr>files := Map.empty, fds := Map.empty,
        trace := trace world1_fail3 @
          [(Sync_call 3, None), (Close_call 3, None),
           (Rename_call tmp1 ''/home/ken/report.txt'', Some EXDEV),
           (Remove_call tmp1, None)]\<rparr>) \<and>
   CloseEx True file1 world1_fail2 =
     (Some (PathError EIO),
      world1_fail2\<lparr>files := Map.empty, fds := Map.empty,
        trace := trace world1_fail2 @
          [(Sync_call 3, None), (Close_call 3, Some EIO), (Remove_call tmp1, None)]\<rparr>)"
  by (simp add: Commit_then_Close_def CloseEx_def eval_defs world1_fail2_def world1_fail3_def)

subsection \<open>A second Commit\<close>

lemma Commit_not_ErrAlreadyCommitted: "fst (Commit f w) \<noteq> Some ErrAlreadyCommitted"
proof -
  obtain r f' w' where c: "Commit f w = (r, f', w')" by (metis prod.exhaust)
  from Commit_result [OF c] have "r \<noteq> Some ErrAlreadyCommitted" by auto
  with c show ?thesis by simp
qed

text \<open>
  After a successful \<open>Commit\<close> a second one issues the sync only, on the closed file,
  and returns its error.
\<close>

lemma Commit_after_Commit:
  assumes "Commit f w = (None, f', w')"
  shows "Commit f' w' =
    (Some (PathError ErrClosed), f', w'\<lparr>trace := trace w' @ [(Sync_call (fd f), Some ErrClosed)]\<rparr>)"
proof -
  from Commit_success [OF assms] have "fds w' (fd f') = None" "fd f' = fd f" by auto
  then show ?thesis
    by (simp add: Commit_def os_Sync_closed log_call_def)
qed

lemma makeTempName_test:
  "makeTempName ''/tmp/safefile-test-3-0'' 0 world0 =
     (Inr ''/tmp/133a7876287381fa-0.tmp'', world0\<lparr>ticks := 1\<rparr>)"
  by (simp add: makeTempName_def UnixNano_def world0_def Join_def Dir_def Clean_def
      Sprintf_tmp_def fmt_x_def fmt_d_def hex.simps dec.simps digit_char_def Separator_def)

lemma Create_test:
  "Create ''/tmp/safefile-test-3-0'' 438 world0 =
     Some (Inr \<lparr>fd = 3, Name = ''/tmp/133a7876287381fa-0.tmp'',
                origName = ''/tmp/safefile-test-3-0'', closeFunc = Uncommitted\<rparr>,
           world0\<lparr>files := [''/tmp/133a7876287381fa-0.tmp'' \<mapsto> []],
             fds := [3 \<mapsto> (''/tmp/133a7876287381fa-0.tmp'', 0)], next_fd := 4,
             trace := [(OpenFile_call ''/tmp/133a7876287381fa-0.tmp'' {O_RDWR, O_CREATE} 438, None)],
             ticks := 1\<rparr>)"
  unfolding Create_def
  apply (subst Create_loop.simps)
  apply (simp add: makeTempName_test)
  apply (simp add: os_OpenFile_def fault_now_def log_call_def world0_def)
  done

text \<open>
  C3 fails on the code: in \<open>TestDoubleCommit\<close> the second \<open>Commit\<close> calls \<open>Sync\<close>
  on the closed file and returns its error, which is not \<open>ErrAlreadyCommitted\<close>, so the
  test ends in its \<open>Second commit didn't fail\<close>. No second rename is issued.
\<close>

theorem TestDoubleCommit_fails:
  "TestDoubleCommit ''/tmp/safefile-test-3-0'' world0 =
     Some (Second_commit_didnt_fail (Some (PathError ErrClosed)),
           world0\<lparr>next_fd := 4, ticks := 1,
             trace := [(OpenFile_call ''/tmp/133a7876287381fa-0.tmp'' {O_RDWR, O_CREATE} 438, None),
                       (Sync_call 3, None), (Close_call 3, None),
                       (Rename_call ''/tmp/133a7876287381fa-0.tmp'' ''/tmp/safefile-test-3-0'', None),
                       (Sync_call 3, Some ErrClosed),
                       (Remove_call ''/tmp/safefile-test-3-0'', None)]\<rparr>)"
  by (simp add: TestDoubleCommit_def Create_test)
    (simp add: world0_def fault_now_def log_call_def os_Sync_def os_Close_def os_Rename_def
      os_Remove_def Commit_def Let_def)

subsection \<open>The check of the destination path\<close>

lemma makeTempName_slash:
  "makeTempName ''a/'' 0 world0 = (Inr ''133a7876287381fa-0.tmp'', world0\<lparr>ticks := 1\<rparr>)"
  by (simp add: makeTempName_def UnixNano_def world0_def Join_def Dir_def Clean_def
      Sprintf_tmp_def fmt_x_def fmt_d_def hex.simps dec.simps digit_char_def Separator_def)

lemma makeTempName_empty:
  "makeTempName [] 0 world0 = (Inr ''133a7876287381fa-0.tmp'', world0\<lparr>ticks := 1\<rparr>)"
  by (simp add: makeTempName_def UnixNano_def world0_def Join_def Dir_def Clean_def
      Sprintf_tmp_def fmt_x_def fmt_d_def hex.simps dec.simps digit_char_def Separator_def)

text \<open>
  C5 as stated fails: the path \<open>a/\<close> ends in a separator and the empty path is empty,
  and for both \<open>Create\<close> succeeds and creates a temporary file in the current
  directory.
\<close>

theorem Create_separator_counterexample:
  "last ''a/'' = Separator \<and>
   Create ''a/'' 438 world0 =
     Some (Inr \<lparr>fd = 3, Name = ''133a7876287381fa-0.tmp'', origName = ''a/'',
                closeFunc = Uncommitted\<rparr>,
           world0\<lparr>files := [''133a7876287381fa-0.tmp'' \<mapsto> []],
             fds := [3 \<mapsto> (''133a7876287381fa-0.tmp'', 0)], next_fd := 4,
             trace := [(OpenFile_call ''133a7876287381fa-0.tmp'' {O_RDWR, O_CREATE} 438, None)],
             ticks := 1\<rparr>) \<and>
   Create [] 438 world0 =
     Some (Inr \<lparr>fd = 3, Name = ''133a7876287381fa-0.tmp'', origName = [],
                closeFunc = Uncommitted\<rparr>,
           world0\<lparr>files := [''133a7876287381fa-0.tmp'' \<mapsto> []],
             fds := [3 \<mapsto> (''133a7876287381fa-0.tmp'', 0)], next_fd := 4,
             trace := [(OpenFile_call ''133a7876287381fa-0.tmp'' {O_RDWR, O_CREATE} 438, None)],
             ticks := 1\<rparr>)"
proof -
  have a: "Create_loop ''a/'' 438 0 world0 = Some (Inr \<lparr>fd = 3, Name = ''133a7876287381fa-0.tmp'', origName = ''a/'',
                closeFunc = Uncommitted\<rparr>,
           world0\<lparr>files := [''133a7876287381fa-0.tmp'' \<mapsto> []],
             fds := [3 \<mapsto> (''133a7876287381fa-0.tmp'', 0)], next_fd := 4,
             trace := [(OpenFile_call ''133a7876287381fa-0.tmp'' {O_RDWR, O_CREATE} 438, None)],
             ticks := 1\<rparr>)"
    apply (subst Create_loop.simps)
    apply (simp add: makeTempName_slash)
    apply (simp add: os_OpenFile_def fault_now_def log_call_def world0_def)
    done
  have b: "Create_loop [] 438 0 world0 = Some (Inr \<lparr>fd = 3, Name = ''133a7876287381fa-0.tmp'', origName = [],
                closeFunc = Uncommitted\<rparr>,
           world0\<lparr>files := [''133a7876287381fa-0.tmp'' \<mapsto> []],
             fds := [3 \<mapsto> (''133a7876287381fa-0.tmp'', 0)], next_fd := 4,
             trace := [(OpenFile_call ''133a7876287381fa-0.tmp'' {O_RDWR, O_CREATE} 438, None)],
             ticks := 1\<rparr>)"
    apply (subst Create_loop.simps)
    apply (simp add: makeTempName_empty)
    apply (simp add: os_OpenFile_def fault_now_def log_call_def world0_def)
    done
  from a b show ?thesis by (simp add: Create_def Separator_def)
qed

text \<open>
  C5, as amended. For every destination path whose cleaned form (\<open>filepath.Clean\<close>) is
  empty or ends in a separator, \<open>Create\<close> returns \<open>os.ErrInvalid\<close> and leaves the
  world as it was: no call is issued and the clock is not read.
\<close>

theorem Create_invalid:
  assumes "length (Clean filename) = 0 \<or> last (Clean filename) = Separator"
  shows "Create filename perm w = Some (Inl ErrInvalid, w)"
  unfolding Create_def
  by (subst Create_loop.simps) (use assms in \<open>simp add: makeTempName_def\<close>)

theorem Create_invalid_witness:
  "(length (Clean ''//'') = 0 \<or> last (Clean ''//'') = Separator) \<and>
   Create ''//'' 438 world0 = Some (Inl ErrInvalid, world0)"
proof -
  have h: "length (Clean ''//'') = 0 \<or> last (Clean ''//'') = Separator"
    by (simp add: Clean_def Separator_def)
  from Create_invalid [OF h] h show ?thesis by simp
qed

subsection \<open>The loop of Create\<close>

lemma IsExist_PathError: "IsExist (PathError e) = (e = EEXIST)"
  by (cases e) simp_all

lemma makeTempName_valid:
  assumes "Clean filename \<noteq> []" and "last (Clean filename) \<noteq> Separator"
  shows "makeTempName filename c w =
    (Inr (Join [Dir (Clean filename), Sprintf_tmp (clock w (ticks w)) c]),
     w\<lparr>ticks := ticks w + 1\<rparr>)"
  using assms by (simp add: makeTempName_def UnixNano_def)

lemma os_OpenFile_fault:
  "fault_now w = Some e \<Longrightarrow>
     os_OpenFile name flags perm w =
       (Inl (PathError e), log_call (OpenFile_call name flags perm) (Some e) w)"
  by (simp add: os_OpenFile_def)

lemma os_OpenFile_create:
  "fault_now w = None \<Longrightarrow>
     os_OpenFile name {O_RDWR, O_CREATE} perm w =
       (Inr (next_fd w),
        log_call (OpenFile_call name {O_RDWR, O_CREATE} perm) None
          (w\<lparr>files := (case files w name of None \<Rightarrow> (files w)(name \<mapsto> []) | Some c \<Rightarrow> files w),
             fds := (fds w)(next_fd w \<mapsto> (name, 0)), next_fd := next_fd w + 1\<rparr>))"
  by (simp add: os_OpenFile_def split: option.splits)

lemma Create_loop_collision:
  assumes "Clean filename \<noteq> []" and "last (Clean filename) \<noteq> Separator"
    and "faults w (length (trace w)) = Some EEXIST"
  shows "Create_loop filename perm c w =
         Create_loop filename perm (c + 1)
           (w\<lparr>ticks := ticks w + 1,
              trace := trace w @
                [(OpenFile_call (Join [Dir (Clean filename), Sprintf_tmp (clock w (ticks w)) c])
                    {O_RDWR, O_CREATE} perm, Some EEXIST)]\<rparr>)"
proof -
  from assms(3) have "fault_now (w\<lparr>ticks := ticks w + 1\<rparr>) = Some EEXIST"
    by (simp add: fault_now_def)
  then show ?thesis
    by (subst Create_loop.simps)
      (simp add: makeTempName_valid [OF assms(1,2)] os_OpenFile_fault log_call_def)
qed

lemma Create_loop_failure:
  assumes "Clean filename \<noteq> []" and "last (Clean filename) \<noteq> Separator"
    and "faults w (length (trace w)) = Some e" and "e \<noteq> EEXIST"
  shows "Create_loop filename perm c w =
         Some (Inl (PathError e),
           w\<lparr>ticks := ticks w + 1,
              trace := trace w @
                [(OpenFile_call (Join [Dir (Clean filename), Sprintf_tmp (clock w (ticks w)) c])
                    {O_RDWR, O_CREATE} perm, Some e)]\<rparr>)"
proof -
  from assms(3) have "fault_now (w\<lparr>ticks := ticks w + 1\<rparr>) = Some e"
    by (simp add: fault_now_def)
  with assms(4) show ?thesis
    by (subst Create_loop.simps)
      (simp add: makeTempName_valid [OF assms(1,2)] os_OpenFile_fault log_call_def
        IsExist_PathError)
qed

lemma Create_loop_success:
  assumes "Clean filename \<noteq> []" and "last (Clean filename) \<noteq> Separator"
    and "faults w (length (trace w)) = None"
  shows "\<exists>f w'. Create_loop filename perm c w = Some (Inr f, w') \<and>
           Name f = Join [Dir (Clean filename), Sprintf_tmp (clock w (ticks w)) c] \<and>
           trace w' = trace w @ [(OpenFile_call (Name f) {O_RDWR, O_CREATE} perm, None)]"
proof -
  from assms(3) have "fault_now (w\<lparr>ticks := ticks w + 1\<rparr>) = None"
    by (simp add: fault_now_def)
  then show ?thesis
    by (subst Create_loop.simps)
      (simp add: makeTempName_valid [OF assms(1,2)] os_OpenFile_create log_call_def)
qed

lemma length_collisions [simp]: "length (collisions filename perm w n) = n"
  by (simp add: collisions_def)

lemma Create_loop_collisions:
  assumes "Clean filename \<noteq> []" and "last (Clean filename) \<noteq> Separator"
  shows "(\<forall>i<n. faults w (length (trace w) + i) = Some EEXIST) \<Longrightarrow>
         Create_loop filename perm 0 w =
         Create_loop filename perm (of_nat n)
           (w\<lparr>ticks := ticks w + n, trace := trace w @ collisions filename perm w n\<rparr>)"
proof (induction n)
  case 0
  then show ?case by (simp add: collisions_def)
next
  case (Suc n)
  let ?w = "w\<lparr>ticks := ticks w + n, trace := trace w @ collisions filename perm w n\<rparr>"
  from Suc.prems have "faults ?w (length (trace ?w)) = Some EEXIST"
    by (simp add: collisions_def)
  from Create_loop_collision [OF assms this, of perm "of_nat n"] Suc
  show ?case
    by (simp add: collisions_def candidate_def add.commute [of 1])
qed

text \<open>
  C9. Take a destination that \<open>makeTempName\<close> accepts and let the first n attempts to
  open a candidate fail because the file exists, for any n. Each of them is followed by a
  new attempt whose candidate is built from the next reading of the clock and the counter
  raised by one. If the attempt after them fails for another reason, \<open>Create\<close> returns
  that error at once: the attempts issued are these n + 1 and no more. If it succeeds,
  \<open>Create\<close> returns the handle of the candidate with counter n.
\<close>

theorem Create_retries:
  assumes "Clean filename \<noteq> []" and "last (Clean filename) \<noteq> Separator"
    and "\<forall>i<n. faults w (length (trace w) + i) = Some EEXIST"
  shows "(faults w (length (trace w) + n) = Some e \<and> e \<noteq> EEXIST \<longrightarrow>
            Create filename perm w =
              Some (Inl (PathError e),
                w\<lparr>ticks := ticks w + Suc n,
                   trace := trace w @ collisions filename perm w n @
                     [(OpenFile_call (candidate filename w n) {O_RDWR, O_CREATE} perm, Some e)]\<rparr>)) \<and>
         (faults w (length (trace w) + n) = None \<longrightarrow>
            (\<exists>f w'. Create filename perm w = Some (Inr f, w') \<and>
               Name f = candidate filename w n \<and>
               events_since w w' = collisions filename perm w n @
                 [(OpenFile_call (candidate filename w n) {O_RDWR, O_CREATE} perm, None)]))"
proof -
  let ?w = "w\<lparr>ticks := ticks w + n, trace := trace w @ collisions filename perm w n\<rparr>"
  have len: "length (trace ?w) = length (trace w) + n"
    by (simp add: collisions_def)
  have loop: "Create filename perm w = Create_loop filename perm (of_nat n) ?w"
    unfolding Create_def by (rule Create_loop_collisions [OF assms])
  show ?thesis
  proof (intro conjI impI)
    assume "faults w (length (trace w) + n) = Some e \<and> e \<noteq> EEXIST"
    then have "faults ?w (length (trace ?w)) = Some e" and "e \<noteq> EEXIST"
      by (simp_all add: len)
    from Create_loop_failure [OF assms(1,2) this, of perm "of_nat n"] loop
    show "Create filename perm w =
              Some (Inl (PathError e),
                w\<lparr>ticks := ticks w + Suc n,
                   trace := trace w @ collisions filename perm w n @
                     [(OpenFile_call (candidate filename w n) {O_RDWR, O_CREATE} perm, Some e)]\<rparr>)"
      by (simp add: candidate_def)
  next
    assume "faults w (length (trace w) + n) = None"
    then have "faults ?w (length (trace ?w)) = None"
      by (simp add: len)
    from Create_loop_success [OF assms(1,2) this, of perm "of_nat n"] loop
    show "\<exists>f w'. Create filename perm w = Some (Inr f, w') \<and>
               Name f = candidate filename w n \<and>
               events_since w w' = collisions filename perm w n @
                 [(OpenFile_call (candidate filename w n) {O_RDWR, O_CREATE} perm, None)]"
      by (auto simp: candidate_def events_since_def)
  qed
qed

lemma Clean_report: "Clean ''/home/ken/report.txt'' = ''/home/ken/report.txt''"
  by (simp add: Clean_def Separator_def)

lemma candidates_busy:
  "candidate ''/home/ken/report.txt'' world_busy 0 = ''/home/ken/133a7876287381fa-0.tmp''"
  "candidate ''/home/ken/report.txt'' world_busy (Suc 0) = ''/home/ken/133a7876287381fb-1.tmp''"
  "candidate ''/home/ken/report.txt'' world_busy (Suc (Suc 0)) = ''/home/ken/133a7876287381fc-2.tmp''"
  by (simp_all add: candidate_def Clean_report world_busy_def world0_def Join_def Dir_def Clean_def
      Sprintf_tmp_def fmt_x_def fmt_d_def hex.simps dec.simps digit_char_def Separator_def)

theorem Create_retries_witness:
  "Clean ''/home/ken/report.txt'' \<noteq> [] \<and> last (Clean ''/home/ken/report.txt'') \<noteq> Separator \<and>
   faults world_busy (length (trace world_busy) + 0) = Some EEXIST \<and>
   faults world_busy (length (trace world_busy) + 1) = Some EEXIST \<and>
   faults world_busy (length (trace world_busy) + 2) = Some EACCES \<and>
   Create ''/home/ken/report.txt'' 438 world_busy =
     Some (Inl (PathError EACCES),
       world_busy\<lparr>ticks := 3,
         trace := [(OpenFile_call ''/home/ken/133a7876287381fa-0.tmp'' {O_RDWR, O_CREATE} 438, Some EEXIST),
                   (OpenFile_call ''/home/ken/133a7876287381fb-1.tmp'' {O_RDWR, O_CREATE} 438, Some EEXIST),
                   (OpenFile_call ''/home/ken/133a7876287381fc-2.tmp'' {O_RDWR, O_CREATE} 438, Some EACCES)]\<rparr>)"
proof -
  have v: "Clean ''/home/ken/report.txt'' \<noteq> []" "last (Clean ''/home/ken/report.txt'') \<noteq> Separator"
    by (simp_all add: Clean_report Separator_def)
  have c: "\<forall>i<2. faults world_busy (length (trace world_busy) + i) = Some EEXIST"
    by (simp add: world_busy_def world0_def)
  have f: "faults world_busy (length (trace world_busy) + 2) = Some EACCES"
    by (simp add: world_busy_def world0_def)
  have t: "ticks world_busy = 0" "trace world_busy = []"
    by (simp_all add: world_busy_def world0_def)
  have c01: "faults world_busy (length (trace world_busy) + 0) = Some EEXIST"
    "faults world_busy (length (trace world_busy) + 1) = Some EEXIST"
    by (simp_all add: world_busy_def world0_def)
  from Create_retries [OF v c, of EACCES 438] v c01 f show ?thesis
    by (simp add: collisions_def numeral_2_eq_2 numeral_3_eq_3 candidates_busy t)
qed

subsection \<open>Creation is not exclusive\<close>

text \<open>
  Where a file lies at the first candidate path and the open is not made to fail,
  \<open>Create\<close> returns a handle on that file and leaves the files as they are.
\<close>

lemma Create_existing:
  assumes "Clean filename \<noteq> []" and "last (Clean filename) \<noteq> Separator"
    and "faults w (length (trace w)) = None"
    and "files w (candidate filename w 0) = Some content"
  shows "\<exists>f w'. Create filename perm w = Some (Inr f, w') \<and>
           Name f = candidate filename w 0 \<and> files w' = files w"
proof -
  from assms(3) have "fault_now (w\<lparr>ticks := ticks w + 1\<rparr>) = None"
    by (simp add: fault_now_def)
  with assms(4) show ?thesis
    unfolding Create_def
    by (subst Create_loop.simps)
      (simp add: makeTempName_valid [OF assms(1,2)] os_OpenFile_create log_call_def candidate_def)
qed

lemma makeTempName_taken:
  "makeTempName ''/home/ken/report.txt'' 0 world_taken = (Inr tmp1, world_taken\<lparr>ticks := 1\<rparr>)"
  by (simp add: makeTempName_def UnixNano_def world_taken_def world0_def tmp1_def Join_def Dir_def Clean_def
      Sprintf_tmp_def fmt_x_def fmt_d_def hex.simps dec.simps digit_char_def Separator_def)

lemma makeTempName_coarse:
  "makeTempName ''/home/ken/report.txt'' 0 world1_coarse = (Inr tmp1, world1_coarse\<lparr>ticks := 2\<rparr>)"
  by (simp add: makeTempName_def UnixNano_def world1_coarse_def world1_def world0_def tmp1_def Join_def Dir_def Clean_def
      Sprintf_tmp_def fmt_x_def fmt_d_def hex.simps dec.simps digit_char_def Separator_def)

text \<open>
  C1 fails on the code: \<open>Create\<close> opens its candidate with \<open>O_RDWR|O_CREATE\<close> and
  without \<open>O_EXCL\<close>. Where a file already lies at the candidate path, \<open>Create\<close>
  succeeds at the first attempt on that very file; and with a clock that does not advance,
  a second \<open>Create\<close> returns a second handle on the temporary path the first one holds
  open.
\<close>

theorem Create_not_exclusive:
  "files world_taken tmp1 = Some ''precious'' \<and>
   Create ''/home/ken/report.txt'' 438 world_taken =
     Some (Inr file1,
           world_taken\<lparr>fds := [3 \<mapsto> (tmp1, 0)], next_fd := 4,
             trace := [(OpenFile_call tmp1 {O_RDWR, O_CREATE} 438, None)], ticks := 1\<rparr>) \<and>
   fds world1_coarse 3 = Some (tmp1, 0) \<and>
   Create ''/home/ken/report.txt'' 438 world1_coarse =
     Some (Inr (file1\<lparr>fd := 4\<rparr>),
           world1_coarse\<lparr>fds := [3 \<mapsto> (tmp1, 0), 4 \<mapsto> (tmp1, 0)], next_fd := 5,
             trace := [(OpenFile_call tmp1 {O_RDWR, O_CREATE} 438, None),
                       (OpenFile_call tmp1 {O_RDWR, O_CREATE} 438, None)], ticks := 2\<rparr>)"
proof -
  have a: "Create_loop ''/home/ken/report.txt'' 438 0 world_taken =
     Some (Inr file1,
           world_taken\<lparr>fds := [3 \<mapsto> (tmp1, 0)], next_fd := 4,
             trace := [(OpenFile_call tmp1 {O_RDWR, O_CREATE} 438, None)], ticks := 1\<rparr>)"
    apply (subst Create_loop.simps)
    apply (simp add: makeTempName_taken)
    apply (simp add: os_OpenFile_def fault_now_def log_call_def world_taken_def world0_def file1_def)
    done
  have b: "Create_loop ''/home/ken/report.txt'' 438 0 world1_coarse =
     Some (Inr (file1\<lparr>fd := 4\<rparr>),
           world1_coarse\<lparr>fds := [3 \<mapsto> (tmp1, 0), 4 \<mapsto> (tmp1, 0)], next_fd := 5,
             trace := [(OpenFile_call tmp1 {O_RDWR, O_CREATE} 438, None),
                       (OpenFile_call tmp1 {O_RDWR, O_CREATE} 438, None)], ticks := 2\<rparr>)"
    apply (subst Create_loop.simps)
    apply (simp add: makeTempName_coarse)
    apply (simp add: os_OpenFile_def fault_now_def log_call_def world1_coarse_def world1_def world0_def file1_def)
    done
  from a b show ?thesis
    by (simp add: Create_def world_taken_def world1_coarse_def world1_def world0_def)
qed

subsection \<open>WriteFile\<close>




text \<open>
  With \<open>(*os.File).Write\<close> a write that reports no error has written the whole buffer.
\<close>

lemma os_Write_full: "os_Write d b w = ((n, None), w2) \<Longrightarrow> n = length b"
  by (auto simp: os_Write_def Let_def split: option.splits prod.splits)













end
